theory Spec2Isabelle
  imports Main
begin

section \<open>Values of the wrapped certificate-authority library\<close>

text \<open>
  The package \<open>authority\<close> (file \<open>authority/authority.go\<close>) wraps the engine
  \<open>stepAuthority\<close>. The wrapper never looks inside the values it hands to the engine or
  receives from it, so each of their Go types is an opaque type here: a value stands for
  whatever Go value is passed, a nil pointer or nil interface included. Only \<open>error\<close>
  results are tested by the wrapper (\<open>err != nil\<close>); an error result is an
  \<open>error option\<close>, \<open>None\<close> being Go's \<open>nil\<close>. The one engine
      value the wrapper
  reads is the configuration, declared with the wrapper's own data below.
\<close>

datatype error = Error string

datatype stepAuthority_Authority = stepAuthority_Authority nat
datatype stepAuthority_Option = stepAuthority_Option nat
datatype stepAuthority_RevokeOptions = stepAuthority_RevokeOptions nat
datatype db_AuthDB = db_AuthDB nat
datatype x509util_Identity = x509util_Identity nat
datatype x509_Certificate = x509_Certificate nat
datatype x509_CertificateRequest = x509_CertificateRequest nat
datatype tls_Certificate = tls_Certificate nat
datatype tlsutil_TLSOptions = tlsutil_TLSOptions nat
datatype ssh_PublicKey = ssh_PublicKey nat
datatype ssh_Certificate = ssh_Certificate nat
datatype context_Context = context_Context nat
datatype stepProvisioner_Options = stepProvisioner_Options nat
datatype stepProvisioner_SSHOptions = stepProvisioner_SSHOptions nat
datatype stepProvisioner_Interface = stepProvisioner_Interface nat
datatype stepProvisioner_List = stepProvisioner_List nat

text \<open>
  \<open>pemutil.WithPassword([]byte(config.Password))\<close> is the one option value the wrapper
  builds for the identity loader; it is kept as the constructor applied to the bytes.
\<close>

datatype pemutil_Options = pemutil_WithPassword string

text \<open>
  \<open>stepProvisioner.SignOption\<close> is the empty interface of the wrapped library. A value
  of it is any Go value: an ordinary sign option, or a whole slice of sign options, which
  is what \<open>SignSSH\<close> passes (line 155 has \<open>signOpts\<close>, not
      \<open>signOpts...\<close>).
\<close>

datatype stepProvisioner_SignOption =
    SignOption nat
  | SignOption_slice "stepProvisioner_SignOption list"

section \<open>The data of the wrapper\<close>

text \<open>
  Modelled from the spec: the declarations of the struct \<open>Config\<close> and of the engine's
  \<open>stepAuthority.Config\<close> are in other files. \<open>Config\<close> embeds a pointer
      to the
  engine's configuration: line 172 sets it (\<open>&Config{Config: config}\<close>) and line 53
  reads it (\<open>config.Config\<close>). The spec's data model names what a configuration holds
  besides: the paths of the intermediate certificate and key, and the password. They are
  fields of the embedded configuration, which \<open>authority.go\<close> reads through the
  embedding (\<open>config.IntermediateCert\<close>, \<open>config.IntermediateKey\<close>,
  \<open>config.Password\<close>): a configuration that \<open>LoadConfiguration\<close> returns
      carries the
  paths and the password that the engine's loader read from the file. Everything else
  in the engine's configuration is opaque (\<open>other_fields\<close>). A \<open>Config\<close>
      holds an
  engine configuration: the nil embedded pointer is not a value of this type.
\<close>

record stepAuthority_Config =
  IntermediateCert :: string
  IntermediateKey :: string
  Password :: string
  other_fields :: nat

record Config =
  Config :: stepAuthority_Config

text \<open>The struct \<open>Authority\<close> (lines 23-27); \<open>config\<close> is a pointer
    to a \<open>Config\<close>.\<close>

record Authority =
  config :: "Config option"
  stepAuth :: stepAuthority_Authority
  intermediateIdentity :: x509util_Identity

text \<open>
  \<open>type WrapperOption func(*Authority)\<close>: a function that updates the wrapper it is
  given.
\<close>

datatype WrapperOption = WrapperOption "Authority \<Rightarrow> Authority"

text \<open>
  \<open>type Option interface{}\<close>: a value of any dynamic type. The type switch of
      \<open>New\<close>
  tells three kinds apart: a \<open>WrapperOption\<close>, a \<open>stepAuthority.Option\<close>,
      and a value
  of any other dynamic type (the nil interface included), of which only a tag is kept.
\<close>

datatype Option =
    Option_WrapperOption WrapperOption
  | Option_stepAuthority_Option stepAuthority_Option
  | Option_other nat

fun is_WrapperOption :: "Option \<Rightarrow> bool" where
  "is_WrapperOption (Option_WrapperOption v) = True"
| "is_WrapperOption (Option_stepAuthority_Option v) = False"
| "is_WrapperOption (Option_other t) = False"

fun is_stepAuthority_Option :: "Option \<Rightarrow> bool" where
  "is_stepAuthority_Option (Option_WrapperOption v) = False"
| "is_stepAuthority_Option (Option_stepAuthority_Option v) = True"
| "is_stepAuthority_Option (Option_other t) = False"

section \<open>Calls to the collaborators\<close>

text \<open>
  Every function the wrapper calls outside this file works on the world (files, the
  database, the engine's own state) of some type \<open>'s\<close>: it takes the world and returns
  its results with the new world. A run of the wrapper carries the world and the list of
  the outside calls made so far, each with its arguments, in order. An outside call is
  taken to return; what the wrapper does when one panics is not part of this model.
\<close>

datatype call =
    Call_stepAuthority_New stepAuthority_Config "stepAuthority_Option list"
  | Call_stepAuthority_LoadConfiguration string
  | Call_LoadIdentityFromDisk string string "pemutil_Options list"
  | Call_OCFSign Authority x509_CertificateRequest stepProvisioner_Options
      "stepProvisioner_SignOption list"
  | Call_GetDatabase stepAuthority_Authority
  | Call_Shutdown stepAuthority_Authority
  | Call_Authorize stepAuthority_Authority context_Context string
  | Call_AuthorizeSign stepAuthority_Authority string
  | Call_GetTLSOptions stepAuthority_Authority
  | Call_Root stepAuthority_Authority string
  | Call_Sign stepAuthority_Authority x509_CertificateRequest stepProvisioner_Options
      "stepProvisioner_SignOption list"
  | Call_Renew stepAuthority_Authority x509_Certificate
  | Call_LoadProvisionerByCertificate stepAuthority_Authority x509_Certificate
  | Call_LoadProvisionerByID stepAuthority_Authority string
  | Call_GetProvisioners stepAuthority_Authority string int
  | Call_Revoke stepAuthority_Authority stepAuthority_RevokeOptions
  | Call_GetEncryptedKey stepAuthority_Authority string
  | Call_GetRoots stepAuthority_Authority
  | Call_GetFederation stepAuthority_Authority
  | Call_GetTLSCertificate stepAuthority_Authority
  | Call_SignSSH stepAuthority_Authority ssh_PublicKey stepProvisioner_SSHOptions
      "stepProvisioner_SignOption list"
  | Call_GetRootCertificates stepAuthority_Authority
  | Call_SignSSHAddUser stepAuthority_Authority ssh_PublicKey ssh_Certificate

record 's run =
  world :: 's
  calls :: "call list"

definition invoke :: "call \<Rightarrow> ('s \<Rightarrow> 'r \<times> 's) \<Rightarrow> 's run
    \<Rightarrow> 'r \<times> 's run" where
  "invoke c f \<sigma> =
     (case f (world \<sigma>) of (r, w) \<Rightarrow> (r, \<lparr>world = w, calls = calls
         \<sigma> @ [c]\<rparr>))"

text \<open>
  The functions of the wrapped library and of its helper packages that
  \<open>authority.go\<close> calls. The methods of the engine take their receiver
  (\<open>a.stepAuth\<close>) first.
\<close>

record 's stepAuthority =
  stepAuthority_New :: "stepAuthority_Config \<Rightarrow> stepAuthority_Option list
      \<Rightarrow> 's \<Rightarrow>
     (stepAuthority_Authority \<times> error option) \<times> 's"
  stepAuthority_WithDatabase :: "db_AuthDB \<Rightarrow> stepAuthority_Option"
  stepAuthority_LoadConfiguration :: "string \<Rightarrow> 's \<Rightarrow>
     (stepAuthority_Config \<times> error option) \<times> 's"
  x509util_LoadIdentityFromDisk :: "string \<Rightarrow> string \<Rightarrow> pemutil_Options
      list \<Rightarrow> 's \<Rightarrow>
     (x509util_Identity \<times> error option) \<times> 's"
  stepAuth_GetDatabase :: "stepAuthority_Authority \<Rightarrow> 's \<Rightarrow> db_AuthDB
      \<times> 's"
  stepAuth_Shutdown :: "stepAuthority_Authority \<Rightarrow> 's \<Rightarrow> error option
      \<times> 's"
  stepAuth_Authorize :: "stepAuthority_Authority \<Rightarrow> context_Context \<Rightarrow>
      string \<Rightarrow> 's \<Rightarrow>
     (stepProvisioner_SignOption list \<times> error option) \<times> 's"
  stepAuth_AuthorizeSign :: "stepAuthority_Authority \<Rightarrow> string \<Rightarrow> 's
      \<Rightarrow>
     (stepProvisioner_SignOption list \<times> error option) \<times> 's"
  stepAuth_GetTLSOptions :: "stepAuthority_Authority \<Rightarrow> 's \<Rightarrow>
      tlsutil_TLSOptions \<times> 's"
  stepAuth_Root :: "stepAuthority_Authority \<Rightarrow> string \<Rightarrow> 's \<Rightarrow>
     (x509_Certificate \<times> error option) \<times> 's"
  stepAuth_Sign :: "stepAuthority_Authority \<Rightarrow> x509_CertificateRequest \<Rightarrow>
     stepProvisioner_Options \<Rightarrow> stepProvisioner_SignOption list \<Rightarrow> 's
         \<Rightarrow>
     (x509_Certificate \<times> x509_Certificate \<times> error option) \<times> 's"
  stepAuth_Renew :: "stepAuthority_Authority \<Rightarrow> x509_Certificate \<Rightarrow> 's
      \<Rightarrow>
     (x509_Certificate \<times> x509_Certificate \<times> error option) \<times> 's"
  stepAuth_LoadProvisionerByCertificate :: "stepAuthority_Authority \<Rightarrow>
      x509_Certificate \<Rightarrow>
     's \<Rightarrow> (stepProvisioner_Interface \<times> error option) \<times> 's"
  stepAuth_LoadProvisionerByID :: "stepAuthority_Authority \<Rightarrow> string \<Rightarrow> 's
      \<Rightarrow>
     (stepProvisioner_Interface \<times> error option) \<times> 's"
  stepAuth_GetProvisioners :: "stepAuthority_Authority \<Rightarrow> string \<Rightarrow> int
      \<Rightarrow> 's \<Rightarrow>
     (stepProvisioner_List \<times> string \<times> error option) \<times> 's"
  stepAuth_Revoke :: "stepAuthority_Authority \<Rightarrow> stepAuthority_RevokeOptions
      \<Rightarrow> 's \<Rightarrow>
     error option \<times> 's"
  stepAuth_GetEncryptedKey :: "stepAuthority_Authority \<Rightarrow> string \<Rightarrow> 's
      \<Rightarrow>
     (string \<times> error option) \<times> 's"
  stepAuth_GetRoots :: "stepAuthority_Authority \<Rightarrow> 's \<Rightarrow>
     (x509_Certificate list \<times> error option) \<times> 's"
  stepAuth_GetFederation :: "stepAuthority_Authority \<Rightarrow> 's \<Rightarrow>
     (x509_Certificate list \<times> error option) \<times> 's"
  stepAuth_GetTLSCertificate :: "stepAuthority_Authority \<Rightarrow> 's \<Rightarrow>
     (tls_Certificate \<times> error option) \<times> 's"
  stepAuth_SignSSH :: "stepAuthority_Authority \<Rightarrow> ssh_PublicKey \<Rightarrow>
     stepProvisioner_SSHOptions \<Rightarrow> stepProvisioner_SignOption list \<Rightarrow> 's
         \<Rightarrow>
     (ssh_Certificate \<times> error option) \<times> 's"
  stepAuth_GetRootCertificates :: "stepAuthority_Authority \<Rightarrow> 's \<Rightarrow>
     x509_Certificate list \<times> 's"
  stepAuth_SignSSHAddUser :: "stepAuthority_Authority \<Rightarrow> ssh_PublicKey \<Rightarrow>
      ssh_Certificate \<Rightarrow>
     's \<Rightarrow> (ssh_Certificate \<times> error option) \<times> 's"

text \<open>
  Modelled from the spec: the methods \<open>isOCF\<close> and \<open>OCFSign\<close> of
      \<open>Authority\<close>, which
  \<open>Sign\<close> calls, are declared in another file of the package. The spec describes
  \<open>isOCF\<close> as a predicate that examines the sign-option sequence for a marker of the
  alternate flow, and \<open>OCFSign\<close> as the alternate signing entrypoint: given a
  certificate request, base options and sign options, it produces the leaf certificate
  and the issuer certificate, or fails. Both are parameters here: \<open>isOCF\<close> any predicate
  of the receiver and the sign options, \<open>OCFSign\<close> any function on the world.
\<close>

record 's ocf =
  isOCF :: "Authority \<Rightarrow> stepProvisioner_SignOption list \<Rightarrow> bool"
  OCFSign :: "Authority \<Rightarrow> x509_CertificateRequest \<Rightarrow>
      stepProvisioner_Options \<Rightarrow>
     stepProvisioner_SignOption list \<Rightarrow> 's \<Rightarrow>
     (x509_Certificate \<times> x509_Certificate \<times> error option) \<times> 's"

section \<open>Construction\<close>

text \<open>\<open>WithDatabase\<close> (lines 36-38).\<close>

definition WithDatabase :: "'s stepAuthority \<Rightarrow> db_AuthDB \<Rightarrow>
    stepAuthority_Option" where
  "WithDatabase env db = stepAuthority_WithDatabase env db"

text \<open>
  The loop of \<open>New\<close> (lines 42-51) over \<open>opts\<close>, with the two slices it
      appends to.
\<close>

fun New_loop :: "Option list \<Rightarrow> stepAuthority_Option list \<Rightarrow> WrapperOption
    list \<Rightarrow>
    stepAuthority_Option list \<times> WrapperOption list" where
  "New_loop [] stepOpts wrapOpts = (stepOpts, wrapOpts)"
| "New_loop (Option_WrapperOption v # opts) stepOpts wrapOpts =
     New_loop opts stepOpts (wrapOpts @ [v])"
| "New_loop (Option_stepAuthority_Option v # opts) stepOpts wrapOpts =
     New_loop opts (stepOpts @ [v]) wrapOpts"
| "New_loop (Option_other t # opts) stepOpts wrapOpts =
     New_loop opts stepOpts wrapOpts"

text \<open>
  A Go function returns its results or panics. \<open>New\<close> panics when
      \<open>config\<close> is the nil
  pointer: \<open>config.Config\<close> on line 53 dereferences it.
\<close>

datatype 'a outcome = Panic_nil_pointer_dereference | Return 'a

text \<open>
  \<open>New\<close> (lines 41-82). The result pair is Go's \<open>(*Authority, error)\<close>:
      \<open>None\<close> in the
  first component is the nil pointer, \<open>None\<close> in the second the nil error.
\<close>

definition New :: "'s stepAuthority \<Rightarrow> Config option \<Rightarrow> Option list
    \<Rightarrow> 's run \<Rightarrow>
    (Authority option \<times> error option) outcome \<times> 's run" where
  "New env cfg opts \<sigma> =
     (case New_loop opts [] [] of (stepOpts, wrapOpts) \<Rightarrow>
      (case cfg of
        None \<Rightarrow> (Panic_nil_pointer_dereference, \<sigma>)
      | Some c \<Rightarrow>
         (case invoke (Call_stepAuthority_New (Config c) stepOpts)
                 (stepAuthority_New env (Config c) stepOpts) \<sigma> of
            ((stepAuth', err), \<sigma>1) \<Rightarrow>
              if err \<noteq> None then (Return (None, err), \<sigma>1)
              else if 0 < length (Password (Config c)) then
                (case invoke
                        (Call_LoadIdentityFromDisk (IntermediateCert (Config c)) (IntermediateKey
                            (Config c))
                           [pemutil_WithPassword (Password (Config c))])
                        (x509util_LoadIdentityFromDisk env (IntermediateCert (Config c))
                           (IntermediateKey (Config c)) [pemutil_WithPassword (Password (Config
                               c))]) \<sigma>1 of
                   ((intermediateIdentity', err), \<sigma>2) \<Rightarrow>
                     if err \<noteq> None then (Return (None, err), \<sigma>2)
                     else (Return (Some \<lparr>config = Some c, stepAuth = stepAuth',
                             intermediateIdentity = intermediateIdentity'\<rparr>, None),
                                 \<sigma>2))
              else
                (case invoke
                        (Call_LoadIdentityFromDisk (IntermediateCert (Config c)) (IntermediateKey
                            (Config c)) [])
                        (x509util_LoadIdentityFromDisk env (IntermediateCert (Config c))
                           (IntermediateKey (Config c)) []) \<sigma>1 of
                   ((intermediateIdentity', err), \<sigma>2) \<Rightarrow>
                     if err \<noteq> None then (Return (None, err), \<sigma>2)
                     else (Return (Some \<lparr>config = Some c, stepAuth = stepAuth',
                             intermediateIdentity = intermediateIdentity'\<rparr>, None),
                                 \<sigma>2)))))"

text \<open>
  \<open>LoadConfiguration\<close> (lines 166-174). The composite literal on lines 171-173 embeds
  the configuration the engine's loader returned.
\<close>

definition LoadConfiguration :: "'s stepAuthority \<Rightarrow> string \<Rightarrow> 's run
    \<Rightarrow>
    (Config option \<times> error option) \<times> 's run" where
  "LoadConfiguration env filename \<sigma> =
     (case invoke (Call_stepAuthority_LoadConfiguration filename)
             (stepAuthority_LoadConfiguration env filename) \<sigma> of
        ((config', err), \<sigma>1) \<Rightarrow>
          (if err \<noteq> None then ((None, err), \<sigma>1)
           else ((Some \<lparr>Config = config'\<rparr>, None), \<sigma>1)))"

section \<open>The methods of the wrapper\<close>

text \<open>
  The methods are stated for a constructed wrapper: the receiver \<open>a\<close> is an
  \<open>Authority\<close> value, not the nil pointer. Lines 86-164, in the order of the file.
\<close>

definition GetDatabase :: "'s stepAuthority \<Rightarrow> Authority \<Rightarrow> 's run
    \<Rightarrow> db_AuthDB \<times> 's run" where
  "GetDatabase env a =
     invoke (Call_GetDatabase (stepAuth a)) (stepAuth_GetDatabase env (stepAuth a))"

definition Shutdown :: "'s stepAuthority \<Rightarrow> Authority \<Rightarrow> 's run
    \<Rightarrow> error option \<times> 's run" where
  "Shutdown env a = invoke (Call_Shutdown (stepAuth a)) (stepAuth_Shutdown env (stepAuth a))"

definition Authorize :: "'s stepAuthority \<Rightarrow> Authority \<Rightarrow> context_Context
    \<Rightarrow> string \<Rightarrow>
    's run \<Rightarrow> (stepProvisioner_SignOption list \<times> error option) \<times> 's run"
        where
  "Authorize env a ctx ott =
     invoke (Call_Authorize (stepAuth a) ctx ott) (stepAuth_Authorize env (stepAuth a) ctx ott)"

definition AuthorizeSign :: "'s stepAuthority \<Rightarrow> Authority \<Rightarrow> string
    \<Rightarrow>
    's run \<Rightarrow> (stepProvisioner_SignOption list \<times> error option) \<times> 's run"
        where
  "AuthorizeSign env a ott =
     invoke (Call_AuthorizeSign (stepAuth a) ott) (stepAuth_AuthorizeSign env (stepAuth a) ott)"

definition GetTLSOptions :: "'s stepAuthority \<Rightarrow> Authority \<Rightarrow> 's run
    \<Rightarrow>
    tlsutil_TLSOptions \<times> 's run" where
  "GetTLSOptions env a =
     invoke (Call_GetTLSOptions (stepAuth a)) (stepAuth_GetTLSOptions env (stepAuth a))"

definition Root :: "'s stepAuthority \<Rightarrow> Authority \<Rightarrow> string \<Rightarrow>
    's run \<Rightarrow>
    (x509_Certificate \<times> error option) \<times> 's run" where
  "Root env a shasum =
     invoke (Call_Root (stepAuth a) shasum) (stepAuth_Root env (stepAuth a) shasum)"

definition Sign :: "'s stepAuthority \<Rightarrow> 's ocf \<Rightarrow> Authority \<Rightarrow>
    x509_CertificateRequest \<Rightarrow>
    stepProvisioner_Options \<Rightarrow> stepProvisioner_SignOption list \<Rightarrow> 's run
        \<Rightarrow>
    (x509_Certificate \<times> x509_Certificate \<times> error option) \<times> 's run" where
  "Sign env ocf a cr opts signOpts =
     (if isOCF ocf a signOpts
      then invoke (Call_OCFSign a cr opts signOpts) (OCFSign ocf a cr opts signOpts)
      else invoke (Call_Sign (stepAuth a) cr opts signOpts)
             (stepAuth_Sign env (stepAuth a) cr opts signOpts))"

definition Renew :: "'s stepAuthority \<Rightarrow> Authority \<Rightarrow> x509_Certificate
    \<Rightarrow> 's run \<Rightarrow>
    (x509_Certificate \<times> x509_Certificate \<times> error option) \<times> 's run" where
  "Renew env a peer =
     invoke (Call_Renew (stepAuth a) peer) (stepAuth_Renew env (stepAuth a) peer)"

definition LoadProvisionerByCertificate :: "'s stepAuthority \<Rightarrow> Authority \<Rightarrow>
    x509_Certificate \<Rightarrow> 's run \<Rightarrow> (stepProvisioner_Interface \<times> error
        option) \<times> 's run" where
  "LoadProvisionerByCertificate env a c =
     invoke (Call_LoadProvisionerByCertificate (stepAuth a) c)
       (stepAuth_LoadProvisionerByCertificate env (stepAuth a) c)"

definition LoadProvisionerByID :: "'s stepAuthority \<Rightarrow> Authority \<Rightarrow> string
    \<Rightarrow> 's run \<Rightarrow>
    (stepProvisioner_Interface \<times> error option) \<times> 's run" where
  "LoadProvisionerByID env a ID =
     invoke (Call_LoadProvisionerByID (stepAuth a) ID)
       (stepAuth_LoadProvisionerByID env (stepAuth a) ID)"

definition GetProvisioners :: "'s stepAuthority \<Rightarrow> Authority \<Rightarrow> string
    \<Rightarrow> int \<Rightarrow> 's run \<Rightarrow>
    (stepProvisioner_List \<times> string \<times> error option) \<times> 's run" where
  "GetProvisioners env a cursor limit =
     invoke (Call_GetProvisioners (stepAuth a) cursor limit)
       (stepAuth_GetProvisioners env (stepAuth a) cursor limit)"

definition Revoke :: "'s stepAuthority \<Rightarrow> Authority \<Rightarrow>
    stepAuthority_RevokeOptions \<Rightarrow>
    's run \<Rightarrow> error option \<times> 's run" where
  "Revoke env a opts =
     invoke (Call_Revoke (stepAuth a) opts) (stepAuth_Revoke env (stepAuth a) opts)"

definition GetEncryptedKey :: "'s stepAuthority \<Rightarrow> Authority \<Rightarrow> string
    \<Rightarrow> 's run \<Rightarrow>
    (string \<times> error option) \<times> 's run" where
  "GetEncryptedKey env a kid =
     invoke (Call_GetEncryptedKey (stepAuth a) kid)
       (stepAuth_GetEncryptedKey env (stepAuth a) kid)"

definition GetRoots :: "'s stepAuthority \<Rightarrow> Authority \<Rightarrow> 's run \<Rightarrow>
    (x509_Certificate list \<times> error option) \<times> 's run" where
  "GetRoots env a = invoke (Call_GetRoots (stepAuth a)) (stepAuth_GetRoots env (stepAuth a))"

definition GetFederation :: "'s stepAuthority \<Rightarrow> Authority \<Rightarrow> 's run
    \<Rightarrow>
    (x509_Certificate list \<times> error option) \<times> 's run" where
  "GetFederation env a =
     invoke (Call_GetFederation (stepAuth a)) (stepAuth_GetFederation env (stepAuth a))"

definition GetTLSCertificate :: "'s stepAuthority \<Rightarrow> Authority \<Rightarrow> 's run
    \<Rightarrow>
    (tls_Certificate \<times> error option) \<times> 's run" where
  "GetTLSCertificate env a =
     invoke (Call_GetTLSCertificate (stepAuth a)) (stepAuth_GetTLSCertificate env (stepAuth a))"

text \<open>
  \<open>SignSSH\<close> (lines 154-156) is variadic in \<open>signOpts\<close>, as
      \<open>Sign\<close> is, and so is the
  method of the engine it calls. \<open>Sign\<close> spreads the slice (\<open>signOpts...\<close>);
  \<open>SignSSH\<close> passes the slice itself as the only variadic argument, so the engine
  receives a sequence of one sign option, whose value is the slice.
\<close>

definition SignSSH :: "'s stepAuthority \<Rightarrow> Authority \<Rightarrow> ssh_PublicKey
    \<Rightarrow>
    stepProvisioner_SSHOptions \<Rightarrow> stepProvisioner_SignOption list \<Rightarrow> 's run
        \<Rightarrow>
    (ssh_Certificate \<times> error option) \<times> 's run" where
  "SignSSH env a key opts signOpts =
     invoke (Call_SignSSH (stepAuth a) key opts [SignOption_slice signOpts])
       (stepAuth_SignSSH env (stepAuth a) key opts [SignOption_slice signOpts])"

definition GetRootCertificates :: "'s stepAuthority \<Rightarrow> Authority \<Rightarrow> 's run
    \<Rightarrow>
    x509_Certificate list \<times> 's run" where
  "GetRootCertificates env a =
     invoke (Call_GetRootCertificates (stepAuth a)) (stepAuth_GetRootCertificates env (stepAuth a))"

definition SignSSHAddUser :: "'s stepAuthority \<Rightarrow> Authority \<Rightarrow>
    ssh_PublicKey \<Rightarrow>
    ssh_Certificate \<Rightarrow> 's run \<Rightarrow> (ssh_Certificate \<times> error option)
        \<times> 's run" where
  "SignSSHAddUser env a key subject =
     invoke (Call_SignSSHAddUser (stepAuth a) key subject)
       (stepAuth_SignSSHAddUser env (stepAuth a) key subject)"

section \<open>A stub engine\<close>

text \<open>
  A small engine to run the wrapper on. Its world is the number of calls it has served.
  Construction fails for a configuration whose other fields are 0; the identity loader
  fails for the key file \<open>enc.key\<close> unless the password \<open>secret\<close> comes
      with it; the
  configuration loader fails for the empty file name, and reads from every other file the
  paths \<open>ca.crt\<close> and \<open>enc.key\<close> and the password \<open>secret\<close>;
      \<open>SignSSH\<close> numbers its certificate by the count of
  sign options it received; every other operation answers with fixed values.
\<close>

definition stub :: "nat stepAuthority" where
  "stub = \<lparr>
     stepAuthority_New = (\<lambda>c opts w.
       if other_fields c = 0
       then ((stepAuthority_Authority 0, Some (Error ''invalid configuration'')), Suc w)
       else ((stepAuthority_Authority 1, None), Suc w)),
     stepAuthority_WithDatabase = (\<lambda>d. case d of db_AuthDB n \<Rightarrow>
         stepAuthority_Option n),
     stepAuthority_LoadConfiguration = (\<lambda>filename w.
       if filename = []
       then ((\<lparr>IntermediateCert = [], IntermediateKey = [], Password = [],
                other_fields = 0\<rparr>, Some (Error ''no such file'')), Suc w)
       else ((\<lparr>IntermediateCert = ''ca.crt'', IntermediateKey = ''enc.key'',
                Password = ''secret'', other_fields = length filename\<rparr>, None), Suc w)),
     x509util_LoadIdentityFromDisk = (\<lambda>crt key pem w.
       if key = ''enc.key'' \<and> pem \<noteq> [pemutil_WithPassword ''secret'']
       then ((x509util_Identity 0, Some (Error ''decryption failed'')), Suc w)
       else ((x509util_Identity 1, None), Suc w)),
     stepAuth_GetDatabase = (\<lambda>s w. (db_AuthDB 1, Suc w)),
     stepAuth_Shutdown = (\<lambda>s w. (None, Suc w)),
     stepAuth_Authorize = (\<lambda>s ctx ott w. (([SignOption 1], None), Suc w)),
     stepAuth_AuthorizeSign = (\<lambda>s ott w. (([SignOption 1], None), Suc w)),
     stepAuth_GetTLSOptions = (\<lambda>s w. (tlsutil_TLSOptions 1, Suc w)),
     stepAuth_Root = (\<lambda>s shasum w. ((x509_Certificate 1, None), Suc w)),
     stepAuth_Sign = (\<lambda>s cr opts signOpts w.
       ((x509_Certificate 2, x509_Certificate 1, None), Suc w)),
     stepAuth_Renew = (\<lambda>s peer w. ((x509_Certificate 2, x509_Certificate 1, None), Suc w)),
     stepAuth_LoadProvisionerByCertificate = (\<lambda>s c w.
       ((stepProvisioner_Interface 1, None), Suc w)),
     stepAuth_LoadProvisionerByID = (\<lambda>s ID w. ((stepProvisioner_Interface 1, None), Suc w)),
     stepAuth_GetProvisioners = (\<lambda>s cursor limit w.
       ((stepProvisioner_List 1, [], None), Suc w)),
     stepAuth_Revoke = (\<lambda>s opts w. (None, Suc w)),
     stepAuth_GetEncryptedKey = (\<lambda>s kid w. ((''key'', None), Suc w)),
     stepAuth_GetRoots = (\<lambda>s w. (([x509_Certificate 1], None), Suc w)),
     stepAuth_GetFederation = (\<lambda>s w. (([x509_Certificate 1], None), Suc w)),
     stepAuth_GetTLSCertificate = (\<lambda>s w. ((tls_Certificate 1, None), Suc w)),
     stepAuth_SignSSH = (\<lambda>s key opts signOpts w.
       ((ssh_Certificate (length signOpts), None), Suc w)),
     stepAuth_GetRootCertificates = (\<lambda>s w. ([x509_Certificate 1], Suc w)),
     stepAuth_SignSSHAddUser = (\<lambda>s key subject w. ((ssh_Certificate 1, None), Suc
         w))\<rparr>"

text \<open>The stub of the alternate flow: the marker is the sign option 0.\<close>

definition stub_ocf :: "nat ocf" where
  "stub_ocf = \<lparr>
     isOCF = (\<lambda>a signOpts. List.member signOpts (SignOption 0)),
     OCFSign = (\<lambda>a cr opts signOpts w.
       ((x509_Certificate 3, x509_Certificate 1, None), Suc w))\<rparr>"

section \<open>Option partitioning\<close>

lemma New_loop_append:
  "New_loop (xs @ ys) stepOpts wrapOpts =
     (case New_loop xs stepOpts wrapOpts of (s, w) \<Rightarrow> New_loop ys s w)"
  by (induction xs stepOpts wrapOpts rule: New_loop.induct) simp_all

lemma New_loop_stepOpts:
  "map Option_stepAuthority_Option (fst (New_loop opts stepOpts wrapOpts)) =
     map Option_stepAuthority_Option stepOpts @ filter is_stepAuthority_Option opts"
  by (induction opts stepOpts wrapOpts rule: New_loop.induct) simp_all

lemma New_loop_wrapOpts:
  "map Option_WrapperOption (snd (New_loop opts stepOpts wrapOpts)) =
     map Option_WrapperOption wrapOpts @ filter is_WrapperOption opts"
  by (induction opts stepOpts wrapOpts rule: New_loop.induct) simp_all

lemma New_loop_acc:
  "New_loop opts stepOpts wrapOpts =
     (stepOpts @ fst (New_loop opts [] []), wrapOpts @ snd (New_loop opts [] []))"
proof -
  have inj1: "inj Option_stepAuthority_Option" by (simp add: inj_def)
  have inj2: "inj Option_WrapperOption" by (simp add: inj_def)
  have "map Option_stepAuthority_Option (fst (New_loop opts stepOpts wrapOpts)) =
        map Option_stepAuthority_Option (stepOpts @ fst (New_loop opts [] []))"
    by (simp add: New_loop_stepOpts)
  then have a: "fst (New_loop opts stepOpts wrapOpts) = stepOpts @ fst (New_loop opts [] [])"
    using inj1 by (simp only: inj_map_eq_map)
  have "map Option_WrapperOption (snd (New_loop opts stepOpts wrapOpts)) =
        map Option_WrapperOption (wrapOpts @ snd (New_loop opts [] []))"
    by (simp add: New_loop_wrapOpts)
  then have b: "snd (New_loop opts stepOpts wrapOpts) = wrapOpts @ snd (New_loop opts [] [])"
    using inj2 by (simp only: inj_map_eq_map)
  show ?thesis using a b by (simp add: prod_eq_iff)
qed

text \<open>
  Claim C1. For every option list given to \<open>New\<close>, the engine options collected by the
  loop are exactly the \<open>stepAuthority.Option\<close> elements of the list, in their order, the
  wrapper options collected are exactly its \<open>WrapperOption\<close> elements, in their order,
  and the elements of any other dynamic type are dropped: removing them from the list
  changes neither partition.
\<close>

theorem New_partitions_options:
  "map Option_stepAuthority_Option (fst (New_loop opts [] [])) =
     filter is_stepAuthority_Option opts \<and>
   map Option_WrapperOption (snd (New_loop opts [] [])) = filter is_WrapperOption opts \<and>
   New_loop (filter (\<lambda>v. is_WrapperOption v \<or> is_stepAuthority_Option v) opts) [] [] =
     New_loop opts [] []"
proof -
  have drop: "New_loop (filter (\<lambda>v. is_WrapperOption v \<or> is_stepAuthority_Option v)
      xs) s w =
      New_loop xs s w" for xs s w
    by (induction xs s w rule: New_loop.induct) simp_all
  show ?thesis
    using New_loop_stepOpts [of opts "[]" "[]"] New_loop_wrapOpts [of opts "[]" "[]"] drop
    by simp
qed

section \<open>Construction: the engine, then the identity\<close>

lemma New_nil_config:
  "New env None opts \<sigma> = (Panic_nil_pointer_dereference, \<sigma>)"
  by (simp add: New_def split: prod.splits)

text \<open>
  What \<open>New\<close> does with a configuration, given what the constructor of the engine
  answers: the whole of lines 53-82 in one equation.
\<close>

lemma New_Some:
  assumes "stepAuthority_New env (Config c) (fst (New_loop opts [] [])) (world \<sigma>) =
             ((sa, err), w1)"
  shows "New env (Some c) opts \<sigma> =
     (if err \<noteq> None
      then (Return (None, err),
            \<lparr>world = w1,
             calls = calls \<sigma> @ [Call_stepAuthority_New (Config c) (fst (New_loop opts []
                 []))]\<rparr>)
      else
        (case x509util_LoadIdentityFromDisk env (IntermediateCert (Config c)) (IntermediateKey
            (Config c))
                (if 0 < length (Password (Config c)) then [pemutil_WithPassword (Password (Config
                    c))] else [])
                w1 of
           ((ident, err'), w2) \<Rightarrow>
             (Return (if err' \<noteq> None then (None, err')
                      else (Some \<lparr>config = Some c, stepAuth = sa,
                              intermediateIdentity = ident\<rparr>, None)),
              \<lparr>world = w2,
               calls = calls \<sigma> @
                 [Call_stepAuthority_New (Config c) (fst (New_loop opts [] [])),
                  Call_LoadIdentityFromDisk (IntermediateCert (Config c)) (IntermediateKey
                      (Config c))
                    (if 0 < length (Password (Config c)) then [pemutil_WithPassword (Password
                        (Config c))]
                     else [])]\<rparr>)))"
  using assms
  by (cases "New_loop opts [] []") (simp add: New_def invoke_def split: prod.splits)

text \<open>
  Claim C3. If the constructor of the engine fails inside \<open>New\<close>, then
      \<open>New\<close> returns
  that error unchanged and no wrapper, and the identity is not loaded: the only outside
  call of the run is the constructor's, and the world is the one the constructor left.
\<close>

theorem New_engine_failure:
  assumes "stepAuthority_New env (Config c) (fst (New_loop opts [] [])) (world \<sigma>) =
             ((sa, Some e), w1)"
  shows "New env (Some c) opts \<sigma> =
     (Return (None, Some e),
      \<lparr>world = w1,
       calls = calls \<sigma> @ [Call_stepAuthority_New (Config c) (fst (New_loop opts []
           []))]\<rparr>)"
  using New_Some [OF assms] by simp

theorem New_engine_failure_witness:
  "stepAuthority_New stub (Config \<lparr>Config = \<lparr>IntermediateCert = ''ca.crt'',
      IntermediateKey = ''ca.key'',
        Password = [], other_fields = 0\<rparr>\<rparr>)
     (fst (New_loop [Option_stepAuthority_Option (stepAuthority_Option 5)] [] [])) (world
         \<lparr>world = 0, calls = []\<rparr>) =
     ((stepAuthority_Authority 0, Some (Error ''invalid configuration'')), 1) \<and>
   New stub (Some \<lparr>Config = \<lparr>IntermediateCert = ''ca.crt'', IntermediateKey =
       ''ca.key'',
        Password = [], other_fields = 0\<rparr>\<rparr>)
     [Option_stepAuthority_Option (stepAuthority_Option 5)] \<lparr>world = 0, calls = []\<rparr> =
     (Return (None, Some (Error ''invalid configuration'')),
      \<lparr>world = 1,
       calls = [Call_stepAuthority_New
                  \<lparr>IntermediateCert = ''ca.crt'', IntermediateKey = ''ca.key'',
                     Password = [], other_fields = 0\<rparr> [stepAuthority_Option 5]]\<rparr>)"
proof -
  have h: "stepAuthority_New stub (Config \<lparr>Config = \<lparr>IntermediateCert = ''ca.crt'',
      IntermediateKey = ''ca.key'',
        Password = [], other_fields = 0\<rparr>\<rparr>)
     (fst (New_loop [Option_stepAuthority_Option (stepAuthority_Option 5)] [] [])) (world
         \<lparr>world = 0::nat, calls = []\<rparr>) =
     ((stepAuthority_Authority 0, Some (Error ''invalid configuration'')), 1)"
    by (simp add: stub_def)
  show ?thesis using h New_engine_failure [OF h] by simp
qed

text \<open>
  Claim C4. Once the engine is constructed, \<open>New\<close> loads the identity from
  \<open>config.IntermediateCert\<close> and \<open>config.IntermediateKey\<close>, with the option
  \<open>pemutil.WithPassword\<close> of the password when \<open>config.Password\<close> is not
      empty and
  with no option when it is empty; an error of the loader is returned as it is, with no
  wrapper. Whenever \<open>New\<close> returns a wrapper, the error is nil, the last outside call
  of the run is that load, and the identity of the wrapper is the one the loader
  returned with no error.
\<close>

theorem New_loads_identity:
  "(\<forall>sa w1 ident err w2.
      stepAuthority_New env (Config c) (fst (New_loop opts [] [])) (world \<sigma>) =
        ((sa, None), w1) \<longrightarrow>
      x509util_LoadIdentityFromDisk env (IntermediateCert (Config c)) (IntermediateKey (Config c))
        (if Password (Config c) \<noteq> [] then [pemutil_WithPassword (Password (Config c))]
            else []) w1 =
        ((ident, err), w2) \<longrightarrow>
      New env (Some c) opts \<sigma> =
        (Return (if err \<noteq> None then (None, err)
                 else (Some \<lparr>config = Some c, stepAuth = sa,
                         intermediateIdentity = ident\<rparr>, None)),
         \<lparr>world = w2,
          calls = calls \<sigma> @
            [Call_stepAuthority_New (Config c) (fst (New_loop opts [] [])),
             Call_LoadIdentityFromDisk (IntermediateCert (Config c)) (IntermediateKey (Config c))
               (if Password (Config c) \<noteq> [] then [pemutil_WithPassword (Password (Config
                   c))] else [])]\<rparr>)) \<and>
   (\<forall>a e \<sigma>'.
      New env (Some c) opts \<sigma> = (Return (Some a, e), \<sigma>') \<longrightarrow>
      e = None \<and>
      (\<exists>w1. x509util_LoadIdentityFromDisk env (IntermediateCert (Config c))
          (IntermediateKey (Config c))
         (if Password (Config c) \<noteq> [] then [pemutil_WithPassword (Password (Config c))]
             else []) w1 =
         ((intermediateIdentity a, None), world \<sigma>')) \<and>
      last (calls \<sigma>') =
        Call_LoadIdentityFromDisk (IntermediateCert (Config c)) (IntermediateKey (Config c))
          (if Password (Config c) \<noteq> [] then [pemutil_WithPassword (Password (Config c))]
              else []))"
proof (intro conjI allI impI)
  fix sa w1 ident err w2
  assume eng: "stepAuthority_New env (Config c) (fst (New_loop opts [] [])) (world \<sigma>) =
        ((sa, None), w1)"
    and load: "x509util_LoadIdentityFromDisk env (IntermediateCert (Config c)) (IntermediateKey
        (Config c))
        (if Password (Config c) \<noteq> [] then [pemutil_WithPassword (Password (Config c))]
            else []) w1 =
        ((ident, err), w2)"
  show "New env (Some c) opts \<sigma> =
        (Return (if err \<noteq> None then (None, err)
                 else (Some \<lparr>config = Some c, stepAuth = sa,
                         intermediateIdentity = ident\<rparr>, None)),
         \<lparr>world = w2,
          calls = calls \<sigma> @
            [Call_stepAuthority_New (Config c) (fst (New_loop opts [] [])),
             Call_LoadIdentityFromDisk (IntermediateCert (Config c)) (IntermediateKey (Config c))
               (if Password (Config c) \<noteq> [] then [pemutil_WithPassword (Password (Config
                   c))] else [])]\<rparr>)"
    using New_Some [OF eng] load by simp
next
  fix a e \<sigma>'
  assume ret: "New env (Some c) opts \<sigma> = (Return (Some a, e), \<sigma>')"
  obtain sa err w1 where eng:
    "stepAuthority_New env (Config c) (fst (New_loop opts [] [])) (world \<sigma>) = ((sa, err),
        w1)"
    by (metis surj_pair)
  obtain ident err' w2 where load:
    "x509util_LoadIdentityFromDisk env (IntermediateCert (Config c)) (IntermediateKey (Config c))
        (if Password (Config c) \<noteq> [] then [pemutil_WithPassword (Password (Config c))]
            else []) w1 =
        ((ident, err'), w2)"
    by (metis surj_pair)
  have all: "err = None \<and> err' = None \<and> e = None \<and> intermediateIdentity a = ident
      \<and>
      \<sigma>' = \<lparr>world = w2,
          calls = calls \<sigma> @
            [Call_stepAuthority_New (Config c) (fst (New_loop opts [] [])),
             Call_LoadIdentityFromDisk (IntermediateCert (Config c)) (IntermediateKey (Config c))
               (if Password (Config c) \<noteq> [] then [pemutil_WithPassword (Password (Config
                   c))] else [])]\<rparr>"
    using New_Some [OF eng] load ret by (auto split: if_splits)
  show "e = None" using all by simp
  show "\<exists>w1. x509util_LoadIdentityFromDisk env (IntermediateCert (Config c))
      (IntermediateKey (Config c))
         (if Password (Config c) \<noteq> [] then [pemutil_WithPassword (Password (Config c))]
             else []) w1 =
         ((intermediateIdentity a, None), world \<sigma>')"
    using all load by (intro exI [of _ w1]) simp
  show "last (calls \<sigma>') =
        Call_LoadIdentityFromDisk (IntermediateCert (Config c)) (IntermediateKey (Config c))
          (if Password (Config c) \<noteq> [] then [pemutil_WithPassword (Password (Config c))]
              else [])"
    using all by simp
qed

theorem New_loads_identity_witness:
  "stepAuthority_New stub
     (Config \<lparr>Config = \<lparr>IntermediateCert = ''ca.crt'', IntermediateKey = ''enc.key'',
        Password = ''secret'', other_fields = 1\<rparr>\<rparr>)
     (fst (New_loop [] [] [])) (world \<lparr>world = 0, calls = []\<rparr>) =
     ((stepAuthority_Authority 1, None), 1) \<and>
   x509util_LoadIdentityFromDisk stub ''ca.crt'' ''enc.key'' [pemutil_WithPassword ''secret''] 1 =
     ((x509util_Identity 1, None), 2) \<and>
   New stub
     (Some \<lparr>Config = \<lparr>IntermediateCert = ''ca.crt'', IntermediateKey = ''enc.key'',
        Password = ''secret'', other_fields = 1\<rparr>\<rparr>) []
     \<lparr>world = 0, calls = []\<rparr> =
     (Return (Some \<lparr>config = Some \<lparr>Config = \<lparr>IntermediateCert = ''ca.crt'',
         IntermediateKey = ''enc.key'',
        Password = ''secret'', other_fields = 1\<rparr>\<rparr>,
               stepAuth = stepAuthority_Authority 1,
               intermediateIdentity = x509util_Identity 1\<rparr>, None),
      \<lparr>world = 2,
       calls = [Call_stepAuthority_New
                  \<lparr>IntermediateCert = ''ca.crt'', IntermediateKey = ''enc.key'',
                     Password = ''secret'', other_fields = 1\<rparr> [],
                Call_LoadIdentityFromDisk ''ca.crt'' ''enc.key''
                  [pemutil_WithPassword ''secret'']]\<rparr>) \<and>
   x509util_LoadIdentityFromDisk stub ''ca.crt'' ''enc.key'' [] 1 =
     ((x509util_Identity 0, Some (Error ''decryption failed'')), 2) \<and>
   New stub
     (Some \<lparr>Config = \<lparr>IntermediateCert = ''ca.crt'', IntermediateKey = ''enc.key'',
        Password = [], other_fields = 1\<rparr>\<rparr>) []
     \<lparr>world = 0, calls = []\<rparr> =
     (Return (None, Some (Error ''decryption failed'')),
      \<lparr>world = 2,
       calls = [Call_stepAuthority_New
                  \<lparr>IntermediateCert = ''ca.crt'', IntermediateKey = ''enc.key'',
                     Password = [], other_fields = 1\<rparr> [],
                Call_LoadIdentityFromDisk ''ca.crt'' ''enc.key'' []]\<rparr>)"
proof -
  let ?c = "\<lparr>Config = \<lparr>IntermediateCert = ''ca.crt'', IntermediateKey = ''enc.key'',
        Password = ''secret'', other_fields = 1\<rparr>\<rparr>"
  let ?d = "\<lparr>Config = \<lparr>IntermediateCert = ''ca.crt'', IntermediateKey = ''enc.key'',
        Password = [], other_fields = 1\<rparr>\<rparr>"
  let ?s = "\<lparr>world = 0::nat, calls = []\<rparr>"
  have eng: "stepAuthority_New stub (Config ?c) (fst (New_loop [] [] [])) (world ?s) =
     ((stepAuthority_Authority 1, None), 1)"
    by (simp add: stub_def)
  have eng': "stepAuthority_New stub (Config ?d) (fst (New_loop [] [] [])) (world ?s) =
     ((stepAuthority_Authority 1, None), 1)"
    by (simp add: stub_def)
  have load: "x509util_LoadIdentityFromDisk stub (IntermediateCert (Config ?c)) (IntermediateKey
      (Config ?c))
      (if Password (Config ?c) \<noteq> [] then [pemutil_WithPassword (Password (Config ?c))]
          else []) 1 =
     ((x509util_Identity 1, None), 2)"
    by (simp add: stub_def)
  have load': "x509util_LoadIdentityFromDisk stub (IntermediateCert (Config ?d)) (IntermediateKey
      (Config ?d))
      (if Password (Config ?d) \<noteq> [] then [pemutil_WithPassword (Password (Config ?d))]
          else []) 1 =
     ((x509util_Identity 0, Some (Error ''decryption failed'')), 2)"
    by (simp add: stub_def)
  have 1: "New stub (Some ?c) [] ?s =
        (Return (if (None::error option) \<noteq> None then (None, None)
                 else (Some \<lparr>config = Some ?c, stepAuth = stepAuthority_Authority 1,
                         intermediateIdentity = x509util_Identity 1\<rparr>, None)),
         \<lparr>world = 2,
          calls = calls ?s @
            [Call_stepAuthority_New (Config ?c) (fst (New_loop [] [] [])),
             Call_LoadIdentityFromDisk (IntermediateCert (Config ?c)) (IntermediateKey (Config ?c))
               (if Password (Config ?c) \<noteq> [] then [pemutil_WithPassword (Password (Config
                   ?c))] else [])]\<rparr>)"
    using New_loads_identity [of stub ?c "[]" ?s] eng load by blast
  have 2: "New stub (Some ?d) [] ?s =
        (Return (if Some (Error ''decryption failed'') \<noteq> None
                 then (None, Some (Error ''decryption failed''))
                 else (Some \<lparr>config = Some ?d, stepAuth = stepAuthority_Authority 1,
                         intermediateIdentity = x509util_Identity 0\<rparr>, None)),
         \<lparr>world = 2,
          calls = calls ?s @
            [Call_stepAuthority_New (Config ?d) (fst (New_loop [] [] [])),
             Call_LoadIdentityFromDisk (IntermediateCert (Config ?d)) (IntermediateKey (Config ?d))
               (if Password (Config ?d) \<noteq> [] then [pemutil_WithPassword (Password (Config
                   ?d))] else [])]\<rparr>)"
    using New_loads_identity [of stub ?d "[]" ?s] eng' load' by blast
  show ?thesis using eng load load' 1 2 by simp
qed

text \<open>
  Claim C7. \<open>WithDatabase\<close> returns the \<open>stepAuthority.Option\<close> that the
      engine's
  \<open>WithDatabase\<close> builds. Anywhere in the option list of \<open>New\<close>, it is
      appended to the
  engine options between those before and those after it, and it adds nothing to the
  wrapper options. \<open>New\<close> then runs the constructor of the engine on the embedded
  configuration and on these engine options, the option of \<open>WithDatabase\<close> among them:
  the error, the engine of the wrapper and the world that \<open>New\<close> goes on with are the
  ones this application of the constructor returns.
\<close>

theorem WithDatabase_is_engine_option:
  "fst (New_loop (pre @ Option_stepAuthority_Option (WithDatabase env db) # post) [] []) =
     fst (New_loop pre [] []) @ stepAuthority_WithDatabase env db # fst (New_loop post [] []) \<and>
   snd (New_loop (pre @ Option_stepAuthority_Option (WithDatabase env db) # post) [] []) =
     snd (New_loop pre [] []) @ snd (New_loop post [] []) \<and>
   New env (Some c) (pre @ Option_stepAuthority_Option (WithDatabase env db) # post) \<sigma> =
     (case stepAuthority_New env (Config c)
             (fst (New_loop pre [] []) @ stepAuthority_WithDatabase env db #
              fst (New_loop post [] [])) (world \<sigma>) of
        ((sa, err), w1) \<Rightarrow>
          if err \<noteq> None
          then (Return (None, err),
                \<lparr>world = w1,
                 calls = calls \<sigma> @
                   [Call_stepAuthority_New (Config c)
                      (fst (New_loop pre [] []) @ stepAuthority_WithDatabase env db #
                       fst (New_loop post [] []))]\<rparr>)
          else
            (case x509util_LoadIdentityFromDisk env (IntermediateCert (Config c))
                    (IntermediateKey (Config c))
                    (if 0 < length (Password (Config c))
                     then [pemutil_WithPassword (Password (Config c))] else []) w1 of
               ((ident, err'), w2) \<Rightarrow>
                 (Return (if err' \<noteq> None then (None, err')
                          else (Some \<lparr>config = Some c, stepAuth = sa,
                                  intermediateIdentity = ident\<rparr>, None)),
                  \<lparr>world = w2,
                   calls = calls \<sigma> @
                     [Call_stepAuthority_New (Config c)
                        (fst (New_loop pre [] []) @ stepAuthority_WithDatabase env db #
                         fst (New_loop post [] [])),
                      Call_LoadIdentityFromDisk (IntermediateCert (Config c))
                        (IntermediateKey (Config c))
                        (if 0 < length (Password (Config c))
                         then [pemutil_WithPassword (Password (Config c))] else [])]\<rparr>)))"
proof -
  let ?opts = "pre @ Option_stepAuthority_Option (WithDatabase env db) # post"
  let ?stepOpts = "fst (New_loop pre [] []) @ stepAuthority_WithDatabase env db #
      fst (New_loop post [] [])"
  have parts: "New_loop ?opts [] [] =
      (?stepOpts, snd (New_loop pre [] []) @ snd (New_loop post [] []))"
  proof -
    have "New_loop ?opts [] [] =
          New_loop post (fst (New_loop pre [] []) @ [WithDatabase env db])
            (snd (New_loop pre [] []))"
      by (simp add: New_loop_append split: prod.splits)
    also have "\<dots> =
        ((fst (New_loop pre [] []) @ [WithDatabase env db]) @ fst (New_loop post [] []),
         snd (New_loop pre [] []) @ snd (New_loop post [] []))"
      by (rule New_loop_acc)
    finally show ?thesis by (simp add: WithDatabase_def)
  qed
  obtain sa err w1 where eng:
    "stepAuthority_New env (Config c) (fst (New_loop ?opts [] [])) (world \<sigma>) = ((sa, err),
        w1)"
    by (metis surj_pair)
  have eng': "stepAuthority_New env (Config c) ?stepOpts (world \<sigma>) = ((sa, err), w1)"
    using eng by (simp only: parts fst_conv)
  have run: "New env (Some c) ?opts \<sigma> =
     (if err \<noteq> None
      then (Return (None, err),
            \<lparr>world = w1, calls = calls \<sigma> @ [Call_stepAuthority_New (Config c)
                ?stepOpts]\<rparr>)
      else
        (case x509util_LoadIdentityFromDisk env (IntermediateCert (Config c))
                (IntermediateKey (Config c))
                (if 0 < length (Password (Config c))
                 then [pemutil_WithPassword (Password (Config c))] else []) w1 of
           ((ident, err'), w2) \<Rightarrow>
             (Return (if err' \<noteq> None then (None, err')
                      else (Some \<lparr>config = Some c, stepAuth = sa,
                              intermediateIdentity = ident\<rparr>, None)),
              \<lparr>world = w2,
               calls = calls \<sigma> @
                 [Call_stepAuthority_New (Config c) ?stepOpts,
                  Call_LoadIdentityFromDisk (IntermediateCert (Config c))
                    (IntermediateKey (Config c))
                    (if 0 < length (Password (Config c))
                     then [pemutil_WithPassword (Password (Config c))] else [])]\<rparr>)))"
    using New_Some [OF eng] by (simp only: parts fst_conv)
  show ?thesis
    by (simp only: parts fst_conv snd_conv run eng' prod.case simp_thms)
qed

text \<open>
  Claim C9. For every configuration and option list, \<open>New\<close> returns either a wrapper
  and the nil error, or the nil pointer and an error that is not nil.
\<close>

theorem New_atomic:
  "(\<exists>a \<sigma>'. New env (Some c) opts \<sigma> = (Return (Some a, None), \<sigma>')) \<or>
   (\<exists>e \<sigma>'. New env (Some c) opts \<sigma> = (Return (None, Some e), \<sigma>'))"
proof -
  obtain sa err w1 where 1:
    "stepAuthority_New env (Config c) (fst (New_loop opts [] [])) (world \<sigma>) = ((sa, err),
        w1)"
    by (metis surj_pair)
  show ?thesis
    using New_Some [OF 1] by (auto split: prod.splits)
qed

section \<open>The wrapper options are collected and never applied\<close>

lemma filter_step_no_wrapper:
  "filter is_stepAuthority_Option (filter (\<lambda>v. \<not> is_WrapperOption v) xs) =
     filter is_stepAuthority_Option xs"
proof (induction xs)
  case Nil
  show ?case by simp
next
  case (Cons x xs)
  then show ?case by (cases x) simp_all
qed

lemma New_stepOpts_only:
  assumes "fst (New_loop opts [] []) = fst (New_loop opts' [] [])"
  shows "New env cfg opts \<sigma> = New env cfg opts' \<sigma>"
  using assms
  by (cases "New_loop opts [] []"; cases "New_loop opts' [] []") (simp add: New_def)

text \<open>
  Claim C6. Two option lists that differ only in their \<open>WrapperOption\<close> elements (the
  lists without those elements are the same list) give the same run of \<open>New\<close> on the
  same configuration: the same result, the same outside calls, the same world. No
  \<open>WrapperOption\<close> is ever applied.
\<close>

theorem New_ignores_WrapperOptions:
  assumes "filter (\<lambda>v. \<not> is_WrapperOption v) opts = filter (\<lambda>v. \<not>
      is_WrapperOption v) opts'"
  shows "New env cfg opts \<sigma> = New env cfg opts' \<sigma>"
proof -
  have "filter is_stepAuthority_Option opts = filter is_stepAuthority_Option opts'"
    using assms filter_step_no_wrapper [of opts] filter_step_no_wrapper [of opts'] by simp
  then have "map Option_stepAuthority_Option (fst (New_loop opts [] [])) =
             map Option_stepAuthority_Option (fst (New_loop opts' [] []))"
    by (simp add: New_loop_stepOpts)
  moreover have "inj Option_stepAuthority_Option" by (simp add: inj_def)
  ultimately have "fst (New_loop opts [] []) = fst (New_loop opts' [] [])"
    by (simp only: inj_map_eq_map)
  then show ?thesis by (rule New_stepOpts_only)
qed

theorem New_ignores_WrapperOptions_witness:
  "filter (\<lambda>v. \<not> is_WrapperOption v)
     [Option_WrapperOption (WrapperOption (\<lambda>a. a\<lparr>config := None\<rparr>)),
      Option_stepAuthority_Option (stepAuthority_Option 5), Option_other 2] =
   filter (\<lambda>v. \<not> is_WrapperOption v)
     [Option_stepAuthority_Option (stepAuthority_Option 5),
      Option_WrapperOption (WrapperOption (\<lambda>a. a\<lparr>stepAuth :=
          stepAuthority_Authority 9\<rparr>)),
      Option_other 2,
      Option_WrapperOption (WrapperOption (\<lambda>a. a))] \<and>
   New stub (Some \<lparr>Config = \<lparr>IntermediateCert = ''ca.crt'', IntermediateKey =
       ''ca.key'',
        Password = [], other_fields = 1\<rparr>\<rparr>)
     [Option_WrapperOption (WrapperOption (\<lambda>a. a\<lparr>config := None\<rparr>)),
      Option_stepAuthority_Option (stepAuthority_Option 5), Option_other 2]
     \<lparr>world = 0, calls = []\<rparr> =
   New stub (Some \<lparr>Config = \<lparr>IntermediateCert = ''ca.crt'', IntermediateKey =
       ''ca.key'',
        Password = [], other_fields = 1\<rparr>\<rparr>)
     [Option_stepAuthority_Option (stepAuthority_Option 5),
      Option_WrapperOption (WrapperOption (\<lambda>a. a\<lparr>stepAuth :=
          stepAuthority_Authority 9\<rparr>)),
      Option_other 2,
      Option_WrapperOption (WrapperOption (\<lambda>a. a))]
     \<lparr>world = 0, calls = []\<rparr>"
proof -
  have h: "filter (\<lambda>v. \<not> is_WrapperOption v)
     [Option_WrapperOption (WrapperOption (\<lambda>a. a\<lparr>config := None\<rparr>)),
      Option_stepAuthority_Option (stepAuthority_Option 5), Option_other 2] =
   filter (\<lambda>v. \<not> is_WrapperOption v)
     [Option_stepAuthority_Option (stepAuthority_Option 5),
      Option_WrapperOption (WrapperOption (\<lambda>a. a\<lparr>stepAuth :=
          stepAuthority_Authority 9\<rparr>)),
      Option_other 2,
      Option_WrapperOption (WrapperOption (\<lambda>a. a))]"
    by simp
  show ?thesis using h New_ignores_WrapperOptions [OF h] by blast
qed

section \<open>Signing dispatch\<close>

text \<open>
  Claim C2. \<open>Sign\<close> calls the alternate entrypoint \<open>OCFSign\<close>, with the
      receiver and
  its own three arguments, exactly when \<open>isOCF\<close> holds of the sign options, and calls
  the \<open>Sign\<close> of the engine with the same three arguments exactly when it does not; in
  both cases it returns what the entrypoint returns.
\<close>

theorem Sign_routes_by_isOCF:
  "Sign env ocf a cr opts signOpts \<sigma> =
     (if isOCF ocf a signOpts
      then invoke (Call_OCFSign a cr opts signOpts) (OCFSign ocf a cr opts signOpts) \<sigma>
      else invoke (Call_Sign (stepAuth a) cr opts signOpts)
             (stepAuth_Sign env (stepAuth a) cr opts signOpts) \<sigma>) \<and>
   (calls (snd (Sign env ocf a cr opts signOpts \<sigma>)) =
      calls \<sigma> @ [Call_OCFSign a cr opts signOpts]) = isOCF ocf a signOpts \<and>
   (calls (snd (Sign env ocf a cr opts signOpts \<sigma>)) =
      calls \<sigma> @ [Call_Sign (stepAuth a) cr opts signOpts]) = (\<not> isOCF ocf a signOpts)"
  by (simp add: Sign_def invoke_def split: prod.splits)

text \<open>
  Claim C10. The path \<open>Sign\<close> takes does not depend on the world it runs in: for given
  receiver, request, options and sign options, either every call of \<open>Sign\<close>, in every
  world, is the call of \<open>OCFSign\<close>, or every one is the call of the engine's
      \<open>Sign\<close>.
  So after any number of calls of \<open>Sign\<close> with the same arguments, each run in the
  world the one before left, the next call is again the call of that one entrypoint:
  its results, its world and its record in the list of outside calls.
\<close>

theorem Sign_path_deterministic:
  "((\<forall>\<sigma>. Sign env ocf a cr opts signOpts \<sigma> =
         invoke (Call_OCFSign a cr opts signOpts) (OCFSign ocf a cr opts signOpts) \<sigma>) \<or>
    (\<forall>\<sigma>. Sign env ocf a cr opts signOpts \<sigma> =
         invoke (Call_Sign (stepAuth a) cr opts signOpts)
           (stepAuth_Sign env (stepAuth a) cr opts signOpts) \<sigma>)) \<and>
   Sign env ocf a cr opts signOpts
       (((\<lambda>\<sigma>. snd (Sign env ocf a cr opts signOpts \<sigma>)) ^^ n) \<sigma>) =
     (if isOCF ocf a signOpts
      then invoke (Call_OCFSign a cr opts signOpts) (OCFSign ocf a cr opts signOpts)
             (((\<lambda>\<sigma>. snd (invoke (Call_OCFSign a cr opts signOpts)
                            (OCFSign ocf a cr opts signOpts) \<sigma>)) ^^ n) \<sigma>)
      else invoke (Call_Sign (stepAuth a) cr opts signOpts)
             (stepAuth_Sign env (stepAuth a) cr opts signOpts)
             (((\<lambda>\<sigma>. snd (invoke (Call_Sign (stepAuth a) cr opts signOpts)
                            (stepAuth_Sign env (stepAuth a) cr opts signOpts) \<sigma>)) ^^ n)
                                \<sigma>))"
proof (cases "isOCF ocf a signOpts")
  case True
  then have "Sign env ocf a cr opts signOpts =
      invoke (Call_OCFSign a cr opts signOpts) (OCFSign ocf a cr opts signOpts)"
    by (simp add: Sign_def)
  with True show ?thesis by simp
next
  case False
  then have "Sign env ocf a cr opts signOpts =
      invoke (Call_Sign (stepAuth a) cr opts signOpts)
        (stepAuth_Sign env (stepAuth a) cr opts signOpts)"
    by (simp add: Sign_def)
  with False show ?thesis by simp
qed

section \<open>Configuration loading\<close>

text \<open>
  Claim C8. \<open>LoadConfiguration\<close> calls the loader of the engine with the file name.
  When the loader fails, the result is the nil pointer and the loader's error; when it
  succeeds, the result is the \<open>Config\<close> that embeds the configuration the loader
  returned, paths and password included, and the nil error.
\<close>

theorem LoadConfiguration_delegates:
  assumes "stepAuthority_LoadConfiguration env filename (world \<sigma>) = ((base, err), w1)"
  shows "LoadConfiguration env filename \<sigma> =
     (if err \<noteq> None then (None, err) else (Some \<lparr>Config = base\<rparr>, None),
      \<lparr>world = w1, calls = calls \<sigma> @ [Call_stepAuthority_LoadConfiguration
          filename]\<rparr>)"
  using assms by (simp add: LoadConfiguration_def invoke_def)

theorem LoadConfiguration_delegates_witness:
  "stepAuthority_LoadConfiguration stub ''ca.json'' (world \<lparr>world = 0, calls = []\<rparr>) =
     ((\<lparr>IntermediateCert = ''ca.crt'', IntermediateKey = ''enc.key'',
         Password = ''secret'', other_fields = 7\<rparr>, None), 1) \<and>
   LoadConfiguration stub ''ca.json'' \<lparr>world = 0, calls = []\<rparr> =
     ((Some \<lparr>Config = \<lparr>IntermediateCert = ''ca.crt'', IntermediateKey = ''enc.key'',
          Password = ''secret'', other_fields = 7\<rparr>\<rparr>, None),
      \<lparr>world = 1, calls = [Call_stepAuthority_LoadConfiguration ''ca.json'']\<rparr>) \<and>
   stepAuthority_LoadConfiguration stub [] (world \<lparr>world = 0, calls = []\<rparr>) =
     ((\<lparr>IntermediateCert = [], IntermediateKey = [], Password = [], other_fields = 0\<rparr>,
       Some (Error ''no such file'')), 1) \<and>
   LoadConfiguration stub [] \<lparr>world = 0, calls = []\<rparr> =
     ((None, Some (Error ''no such file'')),
      \<lparr>world = 1, calls = [Call_stepAuthority_LoadConfiguration []]\<rparr>)"
proof -
  have h1: "stepAuthority_LoadConfiguration stub ''ca.json''
      (world \<lparr>world = 0::nat, calls = []\<rparr>) =
     ((\<lparr>IntermediateCert = ''ca.crt'', IntermediateKey = ''enc.key'',
         Password = ''secret'', other_fields = 7\<rparr>, None), 1)"
    by (simp add: stub_def)
  have h2: "stepAuthority_LoadConfiguration stub [] (world \<lparr>world = 0::nat, calls =
      []\<rparr>) =
     ((\<lparr>IntermediateCert = [], IntermediateKey = [], Password = [], other_fields = 0\<rparr>,
       Some (Error ''no such file'')), 1)"
    by (simp add: stub_def)
  show ?thesis
    using h1 h2 LoadConfiguration_delegates [OF h1] LoadConfiguration_delegates [OF h2]
    by simp
qed

text \<open>
  A configuration loaded from a file and handed to \<open>New\<close>: the identity is loaded from
  the paths of the file, with the password of the file.
\<close>

lemma LoadConfiguration_then_New:
  "(case LoadConfiguration stub ''ca.json'' \<lparr>world = 0, calls = []\<rparr> of
      ((cfg, err), \<sigma>1) \<Rightarrow> New stub cfg [] \<sigma>1) =
     (Return (Some \<lparr>config = Some \<lparr>Config = \<lparr>IntermediateCert = ''ca.crt'',
                 IntermediateKey = ''enc.key'', Password = ''secret'', other_fields =
                     7\<rparr>\<rparr>,
               stepAuth = stepAuthority_Authority 1,
               intermediateIdentity = x509util_Identity 1\<rparr>, None),
      \<lparr>world = 3,
       calls = [Call_stepAuthority_LoadConfiguration ''ca.json'',
                Call_stepAuthority_New
                  \<lparr>IntermediateCert = ''ca.crt'', IntermediateKey = ''enc.key'',
                     Password = ''secret'', other_fields = 7\<rparr> [],
                Call_LoadIdentityFromDisk ''ca.crt'' ''enc.key''
                  [pemutil_WithPassword ''secret'']]\<rparr>)"
  by (simp add: LoadConfiguration_def New_def invoke_def stub_def)

section \<open>Pass-through methods\<close>

lemma invoke_eq:
  "invoke c f \<sigma> = (fst (f (world \<sigma>)), \<lparr>world = snd (f (world \<sigma>)),
      calls = calls \<sigma> @ [c]\<rparr>)"
  by (simp add: invoke_def split: prod.splits)

lemma SignSSH_call:
  "SignSSH env a key opts signOpts \<sigma> =
     (fst (stepAuth_SignSSH env (stepAuth a) key opts [SignOption_slice signOpts] (world \<sigma>)),
      \<lparr>world = snd (stepAuth_SignSSH env (stepAuth a) key opts [SignOption_slice signOpts]
                 (world \<sigma>)),
       calls = calls \<sigma> @
         [Call_SignSSH (stepAuth a) key opts [SignOption_slice signOpts]]\<rparr>) \<and>
   [SignOption_slice signOpts] \<noteq> signOpts"
proof -
  have "size_list size [SignOption_slice signOpts] \<noteq> size_list size signOpts"
    by simp
  then have "[SignOption_slice signOpts] \<noteq> signOpts" by metis
  then show ?thesis by (simp add: SignSSH_def invoke_eq)
qed

text \<open>
  Every pass-through method other than \<open>SignSSH\<close> is one call of the engine's method of
  the same name, on \<open>a.stepAuth\<close> with the method's own arguments, whose results and
  world it returns.
\<close>

lemma passthrough_forwards:
  "GetDatabase env a \<sigma> =
     (fst (stepAuth_GetDatabase env (stepAuth a) (world \<sigma>)),
      \<lparr>world = snd (stepAuth_GetDatabase env (stepAuth a) (world \<sigma>)),
       calls = calls \<sigma> @ [Call_GetDatabase (stepAuth a)]\<rparr>)"
  "Shutdown env a \<sigma> =
     (fst (stepAuth_Shutdown env (stepAuth a) (world \<sigma>)),
      \<lparr>world = snd (stepAuth_Shutdown env (stepAuth a) (world \<sigma>)),
       calls = calls \<sigma> @ [Call_Shutdown (stepAuth a)]\<rparr>)"
  "Authorize env a ctx ott \<sigma> =
     (fst (stepAuth_Authorize env (stepAuth a) ctx ott (world \<sigma>)),
      \<lparr>world = snd (stepAuth_Authorize env (stepAuth a) ctx ott (world \<sigma>)),
       calls = calls \<sigma> @ [Call_Authorize (stepAuth a) ctx ott]\<rparr>)"
  "AuthorizeSign env a ott \<sigma> =
     (fst (stepAuth_AuthorizeSign env (stepAuth a) ott (world \<sigma>)),
      \<lparr>world = snd (stepAuth_AuthorizeSign env (stepAuth a) ott (world \<sigma>)),
       calls = calls \<sigma> @ [Call_AuthorizeSign (stepAuth a) ott]\<rparr>)"
  "GetTLSOptions env a \<sigma> =
     (fst (stepAuth_GetTLSOptions env (stepAuth a) (world \<sigma>)),
      \<lparr>world = snd (stepAuth_GetTLSOptions env (stepAuth a) (world \<sigma>)),
       calls = calls \<sigma> @ [Call_GetTLSOptions (stepAuth a)]\<rparr>)"
  "Root env a shasum \<sigma> =
     (fst (stepAuth_Root env (stepAuth a) shasum (world \<sigma>)),
      \<lparr>world = snd (stepAuth_Root env (stepAuth a) shasum (world \<sigma>)),
       calls = calls \<sigma> @ [Call_Root (stepAuth a) shasum]\<rparr>)"
  "Renew env a peer \<sigma> =
     (fst (stepAuth_Renew env (stepAuth a) peer (world \<sigma>)),
      \<lparr>world = snd (stepAuth_Renew env (stepAuth a) peer (world \<sigma>)),
       calls = calls \<sigma> @ [Call_Renew (stepAuth a) peer]\<rparr>)"
  "LoadProvisionerByCertificate env a crt \<sigma> =
     (fst (stepAuth_LoadProvisionerByCertificate env (stepAuth a) crt (world \<sigma>)),
      \<lparr>world = snd (stepAuth_LoadProvisionerByCertificate env (stepAuth a) crt (world
          \<sigma>)),
       calls = calls \<sigma> @ [Call_LoadProvisionerByCertificate (stepAuth a) crt]\<rparr>)"
  "LoadProvisionerByID env a ID \<sigma> =
     (fst (stepAuth_LoadProvisionerByID env (stepAuth a) ID (world \<sigma>)),
      \<lparr>world = snd (stepAuth_LoadProvisionerByID env (stepAuth a) ID (world \<sigma>)),
       calls = calls \<sigma> @ [Call_LoadProvisionerByID (stepAuth a) ID]\<rparr>)"
  "GetProvisioners env a cursor limit \<sigma> =
     (fst (stepAuth_GetProvisioners env (stepAuth a) cursor limit (world \<sigma>)),
      \<lparr>world = snd (stepAuth_GetProvisioners env (stepAuth a) cursor limit (world \<sigma>)),
       calls = calls \<sigma> @ [Call_GetProvisioners (stepAuth a) cursor limit]\<rparr>)"
  "Revoke env a ropts \<sigma> =
     (fst (stepAuth_Revoke env (stepAuth a) ropts (world \<sigma>)),
      \<lparr>world = snd (stepAuth_Revoke env (stepAuth a) ropts (world \<sigma>)),
       calls = calls \<sigma> @ [Call_Revoke (stepAuth a) ropts]\<rparr>)"
  "GetEncryptedKey env a kid \<sigma> =
     (fst (stepAuth_GetEncryptedKey env (stepAuth a) kid (world \<sigma>)),
      \<lparr>world = snd (stepAuth_GetEncryptedKey env (stepAuth a) kid (world \<sigma>)),
       calls = calls \<sigma> @ [Call_GetEncryptedKey (stepAuth a) kid]\<rparr>)"
  "GetRoots env a \<sigma> =
     (fst (stepAuth_GetRoots env (stepAuth a) (world \<sigma>)),
      \<lparr>world = snd (stepAuth_GetRoots env (stepAuth a) (world \<sigma>)),
       calls = calls \<sigma> @ [Call_GetRoots (stepAuth a)]\<rparr>)"
  "GetFederation env a \<sigma> =
     (fst (stepAuth_GetFederation env (stepAuth a) (world \<sigma>)),
      \<lparr>world = snd (stepAuth_GetFederation env (stepAuth a) (world \<sigma>)),
       calls = calls \<sigma> @ [Call_GetFederation (stepAuth a)]\<rparr>)"
  "GetTLSCertificate env a \<sigma> =
     (fst (stepAuth_GetTLSCertificate env (stepAuth a) (world \<sigma>)),
      \<lparr>world = snd (stepAuth_GetTLSCertificate env (stepAuth a) (world \<sigma>)),
       calls = calls \<sigma> @ [Call_GetTLSCertificate (stepAuth a)]\<rparr>)"
  "GetRootCertificates env a \<sigma> =
     (fst (stepAuth_GetRootCertificates env (stepAuth a) (world \<sigma>)),
      \<lparr>world = snd (stepAuth_GetRootCertificates env (stepAuth a) (world \<sigma>)),
       calls = calls \<sigma> @ [Call_GetRootCertificates (stepAuth a)]\<rparr>)"
  "SignSSHAddUser env a key subject \<sigma> =
     (fst (stepAuth_SignSSHAddUser env (stepAuth a) key subject (world \<sigma>)),
      \<lparr>world = snd (stepAuth_SignSSHAddUser env (stepAuth a) key subject (world \<sigma>)),
       calls = calls \<sigma> @ [Call_SignSSHAddUser (stepAuth a) key subject]\<rparr>)"
  by (simp_all only: GetDatabase_def Shutdown_def Authorize_def AuthorizeSign_def
      GetTLSOptions_def Root_def Renew_def LoadProvisionerByCertificate_def
      LoadProvisionerByID_def GetProvisioners_def Revoke_def GetEncryptedKey_def GetRoots_def
      GetFederation_def GetTLSCertificate_def GetRootCertificates_def SignSSHAddUser_def
      invoke_eq)

text \<open>
  Claim C5. Every pass-through method forwards its inputs unchanged to the engine's
  method and returns its results unchanged. \<open>SignSSH\<close> does not: called with the two
  sign options 1 and 2, it calls the engine's \<open>SignSSH\<close> with one sign option, the slice
  of the two, and the stub, which counts the sign options it receives, answers with
  certificate 1; called with the two sign options themselves it answers with
  certificate 2.
\<close>

theorem SignSSH_passes_slice_as_one_option:
  "SignSSH stub \<lparr>config = None, stepAuth = stepAuthority_Authority 1,
       intermediateIdentity = x509util_Identity 1\<rparr>
     (ssh_PublicKey 1) (stepProvisioner_SSHOptions 1) [SignOption 1, SignOption 2]
     \<lparr>world = 0, calls = []\<rparr> =
     ((ssh_Certificate 1, None),
      \<lparr>world = 1,
       calls = [Call_SignSSH (stepAuthority_Authority 1) (ssh_PublicKey 1)
                  (stepProvisioner_SSHOptions 1)
                  [SignOption_slice [SignOption 1, SignOption 2]]]\<rparr>) \<and>
   invoke (Call_SignSSH (stepAuthority_Authority 1) (ssh_PublicKey 1)
             (stepProvisioner_SSHOptions 1) [SignOption 1, SignOption 2])
     (stepAuth_SignSSH stub (stepAuthority_Authority 1) (ssh_PublicKey 1)
        (stepProvisioner_SSHOptions 1) [SignOption 1, SignOption 2])
     \<lparr>world = 0, calls = []\<rparr> =
     ((ssh_Certificate 2, None),
      \<lparr>world = 1,
       calls = [Call_SignSSH (stepAuthority_Authority 1) (ssh_PublicKey 1)
                  (stepProvisioner_SSHOptions 1) [SignOption 1, SignOption 2]]\<rparr>)"
  by (simp add: SignSSH_def invoke_def stub_def)

end
